theory Spec2Isabelle
  imports Main "HOL-Library.Finite_Map"
begin

section \<open>JavaScript values\<close>

text \<open>
  The data tree and the error tree of the form are plain JavaScript values. Objects are
  finite maps from property names to values (their own enumerable properties); numbers are
  integers. Inherited and non-enumerable properties (\<^verbatim>\<open>length\<close>, \<^verbatim>\<open>constructor\<close>, ...) are
  not part of the model, and equality of values is the deep equality of Ramda's
  \<^verbatim>\<open>equals\<close>, which does not look at the order of the keys.
\<close>

datatype "value" =
    Undef
  | Null
  | Bool bool
  | Num int
  | Str string
  | Arr "value list"
  | Obj "(string, value) fmap"

text \<open>\<^verbatim>\<open>Boolean(v)\<close>, the truthiness every \<^verbatim>\<open>if (x)\<close> and \<^verbatim>\<open>!x\<close> of the source tests.\<close>

fun Boolean :: "value \<Rightarrow> bool" where
  "Boolean Undef = False"
| "Boolean Null = False"
| "Boolean (Bool b) = b"
| "Boolean (Num n) = (n \<noteq> 0)"
| "Boolean (Str s) = (s \<noteq> [])"
| "Boolean (Arr xs) = True"
| "Boolean (Obj m) = True"

text \<open>Ramda \<^verbatim>\<open>isNil\<close>: \<^verbatim>\<open>x == null\<close>.\<close>

fun isNil :: "value \<Rightarrow> bool" where
  "isNil Undef = True"
| "isNil Null = True"
| "isNil _ = False"

text \<open>Ramda \<^verbatim>\<open>defaultTo(d, v)\<close>: \<^verbatim>\<open>v == null || v !== v ? d : v\<close>.\<close>

definition defaultTo :: "value \<Rightarrow> value \<Rightarrow> value" where
  "defaultTo d v = (if isNil v then d else v)"

definition defaultToEmptyString :: "value \<Rightarrow> value" where
  "defaultToEmptyString = defaultTo (Str [])"

subsection \<open>Property access\<close>

text \<open>The decimal name of an array index, as \<^verbatim>\<open>for (p in obj)\<close> enumerates it.\<close>

fun index_key :: "nat \<Rightarrow> string" where
  "index_key n =
     (if n < 10 then [char_of (48 + n)]
      else index_key (n div 10) @ [char_of (48 + n mod 10)])"

declare index_key.simps [simp del]

text \<open>
  The own enumerable properties of a value: the fields of an object, the elements of an
  array and the characters of a string under their index; nothing for the other values.
\<close>

fun own_props :: "value \<Rightarrow> (string, value) fmap" where
  "own_props (Obj m) = m"
| "own_props (Arr xs) = fmap_of_list (zip (map index_key [0 ..< length xs]) xs)"
| "own_props (Str s) =
     fmap_of_list (zip (map index_key [0 ..< length s]) (map (\<lambda>c. Str [c]) s))"
| "own_props _ = fmempty"

text \<open>\<^verbatim>\<open>obj[p]\<close> on a value that is neither null nor undefined.\<close>

definition get_prop :: "value \<Rightarrow> string \<Rightarrow> value" where
  "get_prop obj p = (case fmlookup (own_props obj) p of Some v \<Rightarrow> v | None \<Rightarrow> Undef)"

text \<open>Ramda's internal \<^verbatim>\<open>_has(p, obj)\<close>: \<^verbatim>\<open>hasOwnProperty\<close>.\<close>

definition has :: "string \<Rightarrow> value \<Rightarrow> bool" where
  "has p obj = (fmlookup (own_props obj) p \<noteq> None)"

text \<open>
  Ramda \<^verbatim>\<open>assoc(prop, val, obj)\<close>: a fresh object with the enumerable properties of
  \<^verbatim>\<open>obj\<close> copied and \<^verbatim>\<open>prop\<close> set.
\<close>

definition assoc :: "string \<Rightarrow> value \<Rightarrow> value \<Rightarrow> value" where
  "assoc p val obj = Obj (fmupd p val (own_props obj))"

subsection \<open>Lenses over a path of keys\<close>

text \<open>
  \<^verbatim>\<open>view(lensPath(p), x)\<close> is Ramda's \<^verbatim>\<open>path(p, x)\<close>: it walks the keys and gives
  \<^verbatim>\<open>undefined\<close> as soon as the value in hand is null or undefined.
\<close>

fun ramda_path :: "string list \<Rightarrow> value \<Rightarrow> value" where
  "ramda_path [] val = val"
| "ramda_path (p # ps) val = (if isNil val then Undef else ramda_path ps (get_prop val p))"

text \<open>
  \<^verbatim>\<open>set(lensPath(p), v, x)\<close> is Ramda's \<^verbatim>\<open>assocPath(p, v, x)\<close>. The keys of a form
  are strings, never integers, so a missing intermediate node is created as an object and
  every level is rebuilt by \<^verbatim>\<open>assoc\<close>.
\<close>

fun assocPath :: "string list \<Rightarrow> value \<Rightarrow> value \<Rightarrow> value" where
  "assocPath [] val obj = val"
| "assocPath [idx] val obj = assoc idx val obj"
| "assocPath (idx # p # ps) val obj =
     (let nextObj = (if \<not> isNil obj \<and> has idx obj then get_prop obj idx else Obj fmempty)
      in assoc idx (assocPath (p # ps) val nextObj) obj)"

definition view :: "string list \<Rightarrow> value \<Rightarrow> value" where
  "view lens x = ramda_path lens x"

definition set_lens :: "string list \<Rightarrow> value \<Rightarrow> value \<Rightarrow> value" where
  "set_lens lens v x = assocPath lens v x"

section \<open>The validation object\<close>

text \<open>
  The \<^verbatim>\<open>validation\<close> prop is an object whose keys mirror the fields of the form and whose
  values are functions or arrays of functions (the component's \<^verbatim>\<open>propTypes\<close>). A
  validation function takes the input value and returns a message or a falsy value; it is
  pure and returns. A validation array may hold anything the tree can hold, so that calling
  an element that is no function raises as in the source.
\<close>

datatype vtree =
    VFn "value \<Rightarrow> value"
  | VArr "vtree list"
  | VObj "(string, vtree) fmap"

datatype error = TypeError

fun vown_props :: "vtree \<Rightarrow> (string, vtree) fmap" where
  "vown_props (VObj m) = m"
| "vown_props (VArr fs) = fmap_of_list (zip (map index_key [0 ..< length fs]) fs)"
| "vown_props (VFn f) = fmempty"

text \<open>
  \<^verbatim>\<open>view(lens, this.props.validation)\<close>: Ramda's \<^verbatim>\<open>path\<close> on the validation object;
  \<open>None\<close> is \<^verbatim>\<open>undefined\<close>, the only falsy result (functions, arrays and objects are
  truthy).
\<close>

fun vpath :: "string list \<Rightarrow> vtree option \<Rightarrow> vtree option" where
  "vpath [] val = val"
| "vpath (p # ps) None = None"
| "vpath (p # ps) (Some v) = vpath ps (fmlookup (vown_props v) p)"

definition view_validation :: "string list \<Rightarrow> vtree \<Rightarrow> vtree option" where
  "view_validation lens x = vpath lens (Some x)"

text \<open>Calling a value of the validation object: only a function can be called.\<close>

fun call :: "vtree \<Rightarrow> value \<Rightarrow> error + value" where
  "call (VFn f) x = Inr (f x)"
| "call _ x = Inl TypeError"

fun map_call :: "vtree \<Rightarrow> value list \<Rightarrow> error + value list" where
  "map_call f [] = Inr []"
| "map_call f (x # xs) =
     (case call f x of
        Inl e \<Rightarrow> Inl e
      | Inr y \<Rightarrow> (case map_call f xs of Inl e \<Rightarrow> Inl e | Inr ys \<Rightarrow> Inr (y # ys)))"

text \<open>
  Ramda \<^verbatim>\<open>ap(fns, xs)\<close> on arrays: every function applied to every element, the results
  of the first function first.
\<close>

fun ap :: "vtree list \<Rightarrow> value list \<Rightarrow> error + value list" where
  "ap [] xs = Inr []"
| "ap (f # fs) xs =
     (case map_call f xs of
        Inl e \<Rightarrow> Inl e
      | Inr ys \<Rightarrow> (case ap fs xs of Inl e \<Rightarrow> Inl e | Inr zs \<Rightarrow> Inr (ys @ zs)))"

definition complement :: "('a \<Rightarrow> bool) \<Rightarrow> 'a \<Rightarrow> bool" where
  "complement p x = (\<not> p x)"

definition reject :: "('a \<Rightarrow> bool) \<Rightarrow> 'a list \<Rightarrow> 'a list" where
  "reject p xs = filter (\<lambda>x. \<not> p x) xs"

section \<open>The component\<close>

text \<open>
  What \<^verbatim>\<open>validateTree\<close> can meet while it walks the rendered children: a string, null or
  undefined (reading \<^verbatim>\<open>.props\<close> of it raises), a value without \<^verbatim>\<open>props\<close> (a number, a
  boolean), an array of children, or a React element with its \<^verbatim>\<open>name\<close> and \<^verbatim>\<open>children\<close>
  props (\<open>None\<close> where the prop is absent).
\<close>

datatype element =
    EString string
  | ENull
  | EOther
  | EArray "element list"
  | Element "string option" "element option"

text \<open>\<^verbatim>\<open>element.props.name ? ... : ...\<close>: a name is truthy when it is a non-empty string.\<close>

fun truthy_name :: "string option \<Rightarrow> bool" where
  "truthy_name None = False"
| "truthy_name (Some s) = (s \<noteq> [])"

text \<open>The property key a name is used as: \<^verbatim>\<open>undefined\<close> becomes the key \<^verbatim>\<open>"undefined"\<close>.\<close>

fun key_of :: "string option \<Rightarrow> string" where
  "key_of None = ''undefined''"
| "key_of (Some s) = s"

record props =
  props_children :: "element option"
  props_name :: "string option"
  props_validation :: vtree
  props_data :: "value"

record state =
  state_errors :: "value"
  state_data :: "value"

record component =
  props :: props
  state :: state

text \<open>The component itself, passed to \<^verbatim>\<open>validateTree\<close> as the root element.\<close>

definition as_element :: "component \<Rightarrow> element" where
  "as_element this = Element (props_name (props this)) (props_children (props this))"

fun validateTree :: "component \<Rightarrow> value \<Rightarrow> element \<Rightarrow> string list \<Rightarrow> error + value"
  and reduce_validateTree ::
    "component \<Rightarrow> string list \<Rightarrow> value \<Rightarrow> element list \<Rightarrow> error + value"
where
  "validateTree this errors (EString s) parentPath = Inr errors"
| "validateTree this errors ENull parentPath = Inl TypeError"
| "validateTree this errors EOther parentPath = Inr errors"
| "validateTree this errors (EArray cs) parentPath = Inr errors"
| "validateTree this errors (Element name children) parentPath =
     (case children of
        Some (EArray cs) \<Rightarrow>
          (let path = (if truthy_name name then parentPath @ [key_of name] else parentPath)
           in case reduce_validateTree this path (Obj fmempty) cs of
                Inl e \<Rightarrow> Inl e
              | Inr validated \<Rightarrow>
                  if length path > 0 then Inr (assoc (key_of name) validated errors)
                  else Inr validated)
      | _ \<Rightarrow>
          if truthy_name name then
            (let path = parentPath @ [key_of name]
             in case view_validation path (props_validation (props this)) of
                  None \<Rightarrow> Inr errors
                | Some (VArr fs) \<Rightarrow>
                    (let value = defaultTo (Str []) (view path (state_data (state this)))
                     in case ap fs [value] of
                          Inl e \<Rightarrow> Inl e
                        | Inr results \<Rightarrow>
                            (let validationErrors = reject (complement Boolean) results
                             in if length validationErrors > 0
                                then Inr (assoc (key_of name) (validationErrors ! 0) errors)
                                else Inr errors))
                | Some validation \<Rightarrow>
                    (let value = defaultTo (Str []) (view path (state_data (state this)))
                     in case call validation value of
                          Inl e \<Rightarrow> Inl e
                        | Inr validationError \<Rightarrow>
                            if \<not> Boolean validationError then Inr errors
                            else Inr (assoc (key_of name) validationError errors)))
          else Inr errors)"
| "reduce_validateTree this path acc [] = Inr acc"
| "reduce_validateTree this path acc (c # cs) =
     (case validateTree this acc c path of
        Inl e \<Rightarrow> Inl e
      | Inr acc' \<Rightarrow> reduce_validateTree this path acc' cs)"

text \<open>Ramda \<^verbatim>\<open>equals\<close>: deep equality of two values.\<close>

definition equals :: "value \<Rightarrow> value \<Rightarrow> bool" where
  "equals a b = (a = b)"

text \<open>
  The handlers take the component (\<^verbatim>\<open>this\<close>) and return it with the state that
  \<^verbatim>\<open>setState\<close> leaves, or the error that was raised on the way. One event is handled
  at a time, on the state the previous one left. The rendering (\<^verbatim>\<open>cloneTree\<close>, \<^verbatim>\<open>render\<close>)
  and the call of \<^verbatim>\<open>onChange\<close> with the new state (\<^verbatim>\<open>notifyChangeEvent\<close>) change neither tree
  and are left out.
\<close>

definition constructor :: "props \<Rightarrow> component" where
  "constructor pr =
     \<lparr>props = pr,
      state = \<lparr>state_errors = Obj fmempty,
               state_data = (if Boolean (props_data pr) then props_data pr else Obj fmempty)\<rparr>\<rparr>"

definition componentWillMount :: "component \<Rightarrow> error + component" where
  "componentWillMount this =
     (if Boolean (props_data (props this)) then
        (case validateTree this (Obj fmempty) (as_element this) [] of
           Inl e \<Rightarrow> Inl e
         | Inr errors \<Rightarrow> Inr (this\<lparr>state := (state this)\<lparr>state_errors := errors\<rparr>\<rparr>))
      else Inr this)"

definition componentWillReceiveProps :: "component \<Rightarrow> props \<Rightarrow> error + component" where
  "componentWillReceiveProps this nextProps =
     (let data = props_data nextProps
      in if Boolean data \<and> \<not> equals data (props_data (props this)) then
           (case validateTree this (state_errors (state this)) (as_element this) [] of
              Inl e \<Rightarrow> Inl e
            | Inr errors \<Rightarrow>
                Inr (this\<lparr>state := \<lparr>state_errors = errors, state_data = data\<rparr>\<rparr>))
         else Inr this)"

text \<open>\<^verbatim>\<open>handleChange(path, event)\<close>, with \<open>value\<close> for \<^verbatim>\<open>event.target.value\<close>.\<close>

definition handleChange :: "component \<Rightarrow> string list \<Rightarrow> value \<Rightarrow> error + component" where
  "handleChange this path value =
     (let lens = path;
          data = set_lens lens value (state_data (state this))
      in case view_validation lens (props_validation (props this)) of
           None \<Rightarrow> Inr (this\<lparr>state := (state this)\<lparr>state_data := data\<rparr>\<rparr>)
         | Some (VArr fs) \<Rightarrow>
             (case ap fs [value] of
                Inl e \<Rightarrow> Inl e
              | Inr results \<Rightarrow>
                  (let validationErrors = reject (complement Boolean) results
                   in if length validationErrors > 0 then
                        (let validation = validationErrors ! 0;
                             errors = set_lens lens validation (state_errors (state this))
                         in Inr (this\<lparr>state := \<lparr>state_errors = errors, state_data = data\<rparr>\<rparr>))
                      else
                        (let errors = set_lens lens Null (state_errors (state this))
                         in Inr (this\<lparr>state := \<lparr>state_errors = errors, state_data = data\<rparr>\<rparr>))))
         | Some validate \<Rightarrow>
             (case call validate (defaultToEmptyString (view lens data)) of
                Inl e \<Rightarrow> Inl e
              | Inr validation \<Rightarrow>
                  (let errors = set_lens lens validation (state_errors (state this))
                   in Inr (this\<lparr>state := \<lparr>state_errors = errors, state_data = data\<rparr>\<rparr>))))"

text \<open>
  \<^verbatim>\<open>handleSubmit\<close>: the component after \<^verbatim>\<open>setState({ errors })\<close>, and the argument
  \<^verbatim>\<open>this.props.onSubmit\<close> is called with.
\<close>

definition handleSubmit :: "component \<Rightarrow> error + component \<times> value" where
  "handleSubmit this =
     (case validateTree this (state_errors (state this)) (as_element this) [] of
        Inl e \<Rightarrow> Inl e
      | Inr errors \<Rightarrow>
          Inr (this\<lparr>state := (state this)\<lparr>state_errors := errors\<rparr>\<rparr>, state_data (state this)))"

text \<open>
  A run of changes, one after the other, each on the state the previous one left.
\<close>

fun handleChanges :: "component \<Rightarrow> (string list \<times> value) list \<Rightarrow> error + component" where
  "handleChanges this [] = Inr this"
| "handleChanges this ((path, value) # changes) =
     (case handleChange this path value of
        Inl e \<Rightarrow> Inl e
      | Inr this' \<Rightarrow> handleChanges this' changes)"

section \<open>Forms of inputs, groups and labels\<close>

text \<open>
  The forms on which validation on change and validation of the whole tree are compared:
  an input \<^verbatim>\<open><input name=n />\<close>, a named group \<^verbatim>\<open><fieldset name=n>...</fieldset>\<close> with an array
  of children, and a label with its text.
\<close>

datatype field_tree =
    Input string
  | Group string "field_tree list"
  | Label string

fun element_of :: "field_tree \<Rightarrow> element" where
  "element_of (Input n) = Element (Some n) None"
| "element_of (Group n ts) = Element (Some n) (Some (EArray (map element_of ts)))"
| "element_of (Label s) = Element None (Some (EString s))"

text \<open>The paths of the inputs below a tree, relative to the place of the tree.\<close>

fun fields_of :: "field_tree \<Rightarrow> string list list" where
  "fields_of (Input n) = [[n]]"
| "fields_of (Group n ts) = map ((#) n) (concat (map fields_of ts))"
| "fields_of (Label s) = []"

fun tree_name :: "field_tree \<Rightarrow> string option" where
  "tree_name (Input n) = Some n"
| "tree_name (Group n ts) = Some n"
| "tree_name (Label s) = None"

fun is_group :: "field_tree \<Rightarrow> bool" where
  "is_group (Group n ts) = True"
| "is_group _ = False"












section \<open>Example validators and forms\<close>

text \<open>
  \<^verbatim>\<open>value => !value && 'required'\<close> and \<^verbatim>\<open>value => value === '' ? 'required' : null\<close>,
  and three constant validators.
\<close>

definition required :: "value \<Rightarrow> value" where
  "required v = (if Boolean v then Bool False else Str ''required'')"

definition isNonEmpty :: "value \<Rightarrow> value" where
  "isNonEmpty v = (if v = Str [] then Str ''required'' else Null)"




text \<open>
  A component with the given children, validation object and \<^verbatim>\<open>data\<close> prop, in the
  state with the given error tree and data tree.
\<close>

definition form :: "element option \<Rightarrow> vtree \<Rightarrow> value \<Rightarrow> value \<Rightarrow> value \<Rightarrow> component" where
  "form children validation data_prop errors data =
     \<lparr>props = \<lparr>props_children = children, props_name = None,
                props_validation = validation, props_data = data_prop\<rparr>,
      state = \<lparr>state_errors = errors, state_data = data\<rparr>\<rparr>"

text \<open>\<^verbatim>\<open><input name="email" />\<close> and \<^verbatim>\<open><button>Send</button>\<close>.\<close>

definition email_input :: element where
  "email_input = Element (Some ''email'') None"

definition send_button :: element where
  "send_button = Element None (Some (EString ''Send''))"

text \<open>\<^verbatim>\<open>{ email: [isNonEmpty] }\<close> and \<^verbatim>\<open>{ email: required }\<close>.\<close>

definition email_rules :: vtree where
  "email_rules = VObj (fmupd ''email'' (VArr [VFn isNonEmpty]) fmempty)"

definition email_required :: vtree where
  "email_required = VObj (fmupd ''email'' (VFn required) fmempty)"


text \<open>\<^verbatim>\<open>{ email: v }\<close>.\<close>

definition email_is :: "value \<Rightarrow> value" where
  "email_is v = Obj (fmupd ''email'' v fmempty)"

text \<open>
  A form with an input, a group of two inputs and a label, and
  \<^verbatim>\<open>{ email: [isNonEmpty], address: { zip: isNonEmpty } }\<close>.
\<close>

definition signup_fields :: "field_tree list" where
  "signup_fields =
     [Input ''email'', Group ''address'' [Input ''zip'', Input ''city''], Label ''Send'']"

definition signup_rules :: vtree where
  "signup_rules =
     VObj (fmupd ''email'' (VArr [VFn isNonEmpty])
          (fmupd ''address'' (VObj (fmupd ''zip'' (VFn isNonEmpty) fmempty)) fmempty))"

section \<open>Lens laws\<close>

lemma get_prop_assoc_same: "get_prop (assoc p val obj) p = val"
  by (simp add: get_prop_def assoc_def)


lemma isNil_assoc: "\<not> isNil (assoc p val obj)"
  by (simp add: assoc_def)

lemma path_assocPath: "ramda_path ps (assocPath ps v t) = v"
proof (induction ps v t rule: assocPath.induct)
  case (1 val obj)
  show ?case by simp
next
  case (2 idx val obj)
  show ?case by (simp add: isNil_assoc get_prop_assoc_same)
next
  case (3 idx p ps val obj)
  then show ?case by (simp add: Let_def isNil_assoc get_prop_assoc_same)
qed




lemma view_set_lens: "view ps (set_lens ps v t) = v"
  by (simp add: view_def set_lens_def path_assocPath)

section \<open>Field validation on change\<close>

lemma ap_functions: "ap (map VFn fs) [v] = Inr (map (\<lambda>f. f v) fs)"
  by (induction fs) simp_all

lemma reject_complement_Boolean: "reject (complement Boolean) rs = filter Boolean rs"
  by (simp add: reject_def complement_def)







text \<open>
  Claim C5 (clearing an error), as the source has it. For a field whose entry is a list of
  functions, \<open>handleChange\<close> with a value that every function accepts writes null at the
  path, over the message that was there. For a field whose entry is a single function the
  value written is what the function returned: falsy, but null only when the function
  returned null.
\<close>

theorem clearing_an_error:
  assumes "view_validation path (props_validation (props this)) = Some entry"
    and "entry = VArr (map VFn fs) \<and> (\<forall>f \<in> set fs. \<not> Boolean (f value)) \<or>
         entry = VFn f \<and> \<not> Boolean (f (defaultToEmptyString value))"
  shows "\<exists>this'. handleChange this path value = Inr this' \<and>
           \<not> Boolean (view path (state_errors (state this'))) \<and>
           view path (state_errors (state this')) =
             (case entry of VFn g \<Rightarrow> g (defaultToEmptyString value) | _ \<Rightarrow> Null)"
proof -
  from assms(2) show ?thesis
  proof
    assume a: "entry = VArr (map VFn fs) \<and> (\<forall>f \<in> set fs. \<not> Boolean (f value))"
    then have "filter Boolean (map (\<lambda>f. f value) fs) = []"
      by (simp add: filter_empty_conv)
    with a assms(1) show ?thesis
      by (simp add: handleChange_def Let_def ap_functions reject_complement_Boolean
          view_set_lens)
  next
    assume "entry = VFn f \<and> \<not> Boolean (f (defaultToEmptyString value))"
    with assms(1) show ?thesis
      by (simp add: handleChange_def Let_def view_set_lens)
  qed
qed

theorem clearing_an_error_witness:
  "view_validation [''email'']
     (props_validation
       (props (form None email_rules Null (email_is (Str ''required'')) (email_is (Str '''')))))
     = Some (VArr (map VFn [isNonEmpty])) \<and>
   \<not> Boolean (isNonEmpty (Str ''a@b.com'')) \<and>
   (\<exists>this'.
      handleChange (form None email_rules Null (email_is (Str ''required'')) (email_is (Str '''')))
        [''email''] (Str ''a@b.com'') = Inr this' \<and>
      view [''email''] (state_errors (state this')) = Null)"
  using clearing_an_error
    [of "[''email'']"
        "form None email_rules Null (email_is (Str ''required'')) (email_is (Str ''''))"
        "VArr (map VFn [isNonEmpty])" "[isNonEmpty]" "Str ''a@b.com''"]
  by (auto simp add: form_def email_rules_def view_validation_def isNonEmpty_def)

text \<open>
  The claim as the specification states it, "writes exactly null", fails for a single
  function that reports success by \<^verbatim>\<open>false\<close>: the error tree then holds \<^verbatim>\<open>false\<close>.
\<close>

theorem clearing_an_error_counterexample:
  "view_validation [''email'']
     (props_validation
       (props (form None email_required Null (email_is (Str ''required'')) (email_is (Str '''')))))
     = Some (VFn required) \<and>
   Boolean (view [''email'']
     (state_errors
       (state (form None email_required Null (email_is (Str ''required'')) (email_is (Str ''''))))))\<and>
   \<not> Boolean (required (defaultToEmptyString (Str ''a@b.com''))) \<and>
   handleChange (form None email_required Null (email_is (Str ''required'')) (email_is (Str '''')))
     [''email''] (Str ''a@b.com'') =
     Inr (form None email_required Null (email_is (Bool False)) (email_is (Str ''a@b.com''))) \<and>
   view [''email'']
     (state_errors
       (state (form None email_required Null (email_is (Bool False)) (email_is (Str ''a@b.com'')))))
     \<noteq> Null"
  by (simp add: form_def email_required_def email_is_def view_validation_def view_def
      get_prop_def required_def defaultToEmptyString_def defaultTo_def handleChange_def
      set_lens_def assoc_def)

section \<open>Validator resolution\<close>







section \<open>Validation of the whole tree\<close>

lemma validateTree_skip:
  "(\<forall>cs. children \<noteq> Some (EArray cs)) \<Longrightarrow> \<not> truthy_name name \<Longrightarrow>
   validateTree this errors (Element name children) parentPath = Inr errors"
  apply (cases children)
   apply simp
  subgoal for c by (cases c) simp_all
  done

text \<open>
  Claim C10 (children that are not an array). For every accumulator and every element
  without a name whose \<^verbatim>\<open>children\<close> prop is not an array, \<open>validateTree\<close> returns the
  accumulator as it is. So a form whose children are a single element is not validated at
  all: on submit the error tree stays what it was, and the initial validation gives the
  empty object.
\<close>

theorem validateTree_skips_non_array_children:
  assumes "\<forall>cs. children \<noteq> Some (EArray cs)" and "\<not> truthy_name name"
  shows "validateTree this errors (Element name children) parentPath = Inr errors \<and>
         (props_children (props this) = children \<and> props_name (props this) = name \<longrightarrow>
            handleSubmit this = Inr (this, state_data (state this)) \<and>
            componentWillMount this =
              Inr (if Boolean (props_data (props this))
                   then this\<lparr>state := (state this)\<lparr>state_errors := Obj fmempty\<rparr>\<rparr>
                   else this))"
  using assms
  by (simp add: validateTree_skip handleSubmit_def componentWillMount_def as_element_def
      del: validateTree.simps)

theorem validateTree_skips_non_array_children_witness:
  "(\<forall>cs. Some email_input \<noteq> Some (EArray cs)) \<and> \<not> truthy_name None \<and>
   props_children (props (form (Some email_input) email_rules (email_is (Str ''''))
      (Obj fmempty) (email_is (Str '''')))) = Some email_input \<and>
   props_name (props (form (Some email_input) email_rules (email_is (Str ''''))
      (Obj fmempty) (email_is (Str '''')))) = None \<and>
   handleSubmit (form (Some email_input) email_rules (email_is (Str '''')) (Obj fmempty)
      (email_is (Str ''''))) =
     Inr (form (Some email_input) email_rules (email_is (Str '''')) (Obj fmempty)
            (email_is (Str '''')), email_is (Str '''')) \<and>
   componentWillMount (form (Some email_input) email_rules (email_is (Str '''')) (Obj fmempty)
      (email_is (Str ''''))) =
     Inr (form (Some email_input) email_rules (email_is (Str '''')) (Obj fmempty)
            (email_is (Str '''')))"
proof -
  let ?F = "form (Some email_input) email_rules (email_is (Str '''')) (Obj fmempty)
              (email_is (Str ''''))"
  have a: "\<forall>cs. Some email_input \<noteq> Some (EArray cs)"
    by (simp add: email_input_def)
  have b: "\<not> truthy_name None"
    by simp
  have c: "props_children (props ?F) = Some email_input \<and> props_name (props ?F) = None"
    by (simp add: form_def)
  have d: "Boolean (props_data (props ?F))"
    by (simp add: form_def email_is_def)
  have e: "?F\<lparr>state := (state ?F)\<lparr>state_errors := Obj fmempty\<rparr>\<rparr> = ?F"
    by (simp add: form_def)
  from validateTree_skips_non_array_children [OF a b, of ?F "Obj fmempty" "[]"] c
  have "handleSubmit ?F = Inr (?F, state_data (state ?F)) \<and>
        componentWillMount ?F =
          Inr (if Boolean (props_data (props ?F))
               then ?F\<lparr>state := (state ?F)\<lparr>state_errors := Obj fmempty\<rparr>\<rparr> else ?F)"
    by blast
  moreover have "state_data (state ?F) = email_is (Str '''')"
    by (simp add: form_def)
  ultimately show ?thesis
    using a b c d e by simp
qed

section \<open>Submit\<close>



section \<open>Changes in sequence and validation of the whole tree\<close>

subsection \<open>Updates at other paths\<close>











subsection \<open>The state after a run of changes\<close>








subsection \<open>The tree that validateTree builds\<close>



lemma validateTree_label:
  "validateTree this acc (Element None (Some (EString s))) pp = Inr acc"
  by simp

lemma validateTree_root:
  "\<not> truthy_name nm \<Longrightarrow>
   validateTree this acc (Element nm (Some (EArray cs))) [] =
     reduce_validateTree this [] (Obj fmempty) cs"
  by (simp add: Let_def split: sum.splits)

lemma fields_of_nonempty: "[] \<notin> set (fields_of t)"
  by (cases t) auto



lemma fields_of_head: "n # rest \<in> set (fields_of t) \<Longrightarrow> tree_name t = Some n"
  by (cases t) auto


lemma fields_of_group: "n # rest \<in> set (fields_of t) \<Longrightarrow> is_group t \<Longrightarrow> rest \<noteq> []"
  by (cases t) (auto simp add: fields_of_nonempty)


lemma fields_list_name:
  "n # rest \<in> set (concat (map fields_of ts)) \<Longrightarrow> Some n \<in> set (map tree_name ts)"
  by (auto dest: fields_of_head simp add: image_iff) (metis fields_of_head)








subsection \<open>The paths of the fields are apart\<close>



subsection \<open>Agreement\<close>



text \<open>
  The two error trees on the sign-up form: they differ in the entry of the valid field
  only.
\<close>

lemma signup_run:
  "handleChanges
       (form (Some (EArray (map element_of signup_fields))) signup_rules Null (Obj fmempty)
          (Obj fmempty))
       (zip (concat (map fields_of signup_fields)) [Str ''a@b.com'', Str '''', Str ''Paris'']) =
     Inr (form (Some (EArray (map element_of signup_fields))) signup_rules Null
            (Obj (fmupd ''address'' (Obj (fmupd ''zip'' (Str ''required'') fmempty))
                 (fmupd ''email'' Null fmempty)))
            (Obj (fmupd ''address'' (Obj (fmupd ''city'' (Str ''Paris'')
                                         (fmupd ''zip'' (Str '''') fmempty)))
                 (fmupd ''email'' (Str ''a@b.com'') fmempty))))"
  by (simp add: signup_fields_def form_def signup_rules_def handleChange_def view_validation_def
      set_lens_def assoc_def has_def get_prop_def view_def isNonEmpty_def reject_def
      complement_def defaultToEmptyString_def defaultTo_def)

lemma signup_full:
  "validateTree
     (form (Some (EArray (map element_of signup_fields))) signup_rules Null
            (Obj (fmupd ''address'' (Obj (fmupd ''zip'' (Str ''required'') fmempty))
                 (fmupd ''email'' Null fmempty)))
            (Obj (fmupd ''address'' (Obj (fmupd ''city'' (Str ''Paris'')
                                         (fmupd ''zip'' (Str '''') fmempty)))
                 (fmupd ''email'' (Str ''a@b.com'') fmempty))))
     (Obj fmempty)
     (Element None (Some (EArray (map element_of signup_fields)))) [] =
   Inr (Obj (fmupd ''address'' (Obj (fmupd ''zip'' (Str ''required'') fmempty)) fmempty))"
  by (simp add: signup_fields_def form_def signup_rules_def view_validation_def
      assoc_def get_prop_def view_def isNonEmpty_def reject_def
      complement_def defaultTo_def)


section \<open>Error trees that are not recomputed\<close>

lemma email_is_eq: "email_is a = email_is b \<longleftrightarrow> a = b"
proof
  assume "email_is a = email_is b"
  then have "fmlookup (fmupd ''email'' a fmempty) ''email'' =
             fmlookup (fmupd ''email'' b fmempty) ''email''"
    by (simp add: email_is_def)
  then show "a = b" by simp
qed simp

text \<open>
  When the children of the form are an array and the form has no name, the accumulator
  that \<open>handleSubmit\<close> passes is not used: the error tree is built from the empty object.
\<close>

lemma submit_with_array_children:
  assumes "props_children (props this) = Some (EArray cs)"
    and "\<not> truthy_name (props_name (props this))"
  shows "validateTree this (state_errors (state this)) (as_element this) [] =
         validateTree this (Obj fmempty) (as_element this) []"
  using assms by (simp add: as_element_def validateTree_root del: validateTree.simps)

text \<open>
  Claim C2 (submit revalidates, whatever the errors were), at an input where the source
  does not do it. The only child of the form is the input \<^verbatim>\<open>email\<close>, the data holds a valid
  email and the error tree holds the message of an earlier change. \<open>handleSubmit\<close> leaves
  that message in place, although the validator of the field accepts the value.
\<close>

theorem submit_keeps_prior_errors:
  "handleSubmit
     (form (Some email_input) email_rules Null (email_is (Str ''required''))
        (email_is (Str ''a@b.com''))) =
     Inr (form (Some email_input) email_rules Null (email_is (Str ''required''))
            (email_is (Str ''a@b.com'')),
          email_is (Str ''a@b.com'')) \<and>
   view_validation [''email''] email_rules = Some (VArr [VFn isNonEmpty]) \<and>
   isNonEmpty (view [''email''] (email_is (Str ''a@b.com''))) = Null"
  by (simp add: handleSubmit_def form_def as_element_def email_input_def email_rules_def
      email_is_def view_validation_def view_def get_prop_def isNonEmpty_def)

text \<open>
  Claim C3 (new data from the host), at an input where the source does not do it. The form
  holds an empty email and its message; the host passes a valid email.
  \<open>componentWillReceiveProps\<close> adopts the new data but validates the data the state still
  holds, so the message stays; validation of the new data gives the empty error tree.
\<close>

theorem receive_props_validates_old_data:
  "componentWillReceiveProps
     (form (Some (EArray [email_input, send_button])) email_rules (email_is (Str ''''))
        (email_is (Str ''required'')) (email_is (Str '''')))
     \<lparr>props_children = Some (EArray [email_input, send_button]), props_name = None,
      props_validation = email_rules, props_data = email_is (Str ''a@b.com'')\<rparr> =
     Inr (form (Some (EArray [email_input, send_button])) email_rules (email_is (Str ''''))
            (email_is (Str ''required'')) (email_is (Str ''a@b.com''))) \<and>
   validateTree
     (form (Some (EArray [email_input, send_button])) email_rules (email_is (Str ''''))
        (email_is (Str ''required'')) (email_is (Str ''a@b.com'')))
     (Obj fmempty)
     (Element None (Some (EArray [email_input, send_button]))) [] =
     Inr (Obj fmempty)"
proof -
  have ne: "\<not> equals (email_is (Str ''a@b.com'')) (email_is (Str ''''))"
    by (simp add: equals_def email_is_eq)
  have b: "Boolean (email_is (Str ''a@b.com''))"
    by (simp add: email_is_def)
  have old: "validateTree
     (form (Some (EArray [email_input, send_button])) email_rules (email_is (Str ''''))
        (email_is (Str ''required'')) (email_is (Str '''')))
     (email_is (Str ''required''))
     (Element None (Some (EArray [email_input, send_button]))) [] =
     Inr (email_is (Str ''required''))"
    by (simp add: form_def email_input_def send_button_def email_rules_def
        email_is_def view_validation_def view_def get_prop_def isNonEmpty_def defaultTo_def
        reject_def complement_def assoc_def)
  have new: "validateTree
     (form (Some (EArray [email_input, send_button])) email_rules (email_is (Str ''''))
        (email_is (Str ''required'')) (email_is (Str ''a@b.com'')))
     (Obj fmempty)
     (Element None (Some (EArray [email_input, send_button]))) [] =
     Inr (Obj fmempty)"
    by (simp add: form_def email_input_def send_button_def email_rules_def
        email_is_def view_validation_def view_def get_prop_def isNonEmpty_def defaultTo_def
        reject_def complement_def assoc_def)
  have "componentWillReceiveProps
     (form (Some (EArray [email_input, send_button])) email_rules (email_is (Str ''''))
        (email_is (Str ''required'')) (email_is (Str '''')))
     \<lparr>props_children = Some (EArray [email_input, send_button]), props_name = None,
      props_validation = email_rules, props_data = email_is (Str ''a@b.com'')\<rparr> =
     Inr (form (Some (EArray [email_input, send_button])) email_rules (email_is (Str ''''))
            (email_is (Str ''required'')) (email_is (Str ''a@b.com'')))"
    using ne b old
    by (simp add: componentWillReceiveProps_def Let_def as_element_def form_def
        del: validateTree.simps)
  with new show ?thesis by simp
qed

end
